theory Spec2Isabelle
  imports Complex_Main "HOL-Library.Word"
begin

section \<open>The ADB operator of UI-TARS-desktop (packages/operators/adb/src/index.ts)\<close>

text \<open>
  The operator drives an Android device through the \<^verbatim>\<open>adb\<close> command line: \<^verbatim>\<open>screenshot()\<close>
  captures the screen into a host-local file and returns it, \<^verbatim>\<open>execute()\<close> turns a parsed
  prediction into one \<^verbatim>\<open>adb shell input ...\<close> command.

  Conventions of the embedding.
  \<^item> A JavaScript string is a \<open>string\<close>; a character stands for one code unit below 256.
  \<^item> A JavaScript number that holds a coordinate is a \<open>rat\<close> (no NaN, no infinity, no
    rounding of the double format); a number that counts (the round, pixel sizes) is a \<open>nat\<close>.
  \<^item> An exception is a value \<open>Inl e\<close> of a sum type.
  \<^item> Everything outside the process is explicit state: the files of the working
    directory, the device behind \<^verbatim>\<open>adb\<close>, the commands handed to the Command Runner and the
    lines handed to the logger.
  \<^item> The libraries the operator calls are parameters, collected in the record \<open>env\<close>:
    the Command Runner (\<^verbatim>\<open>execa\<close>'s \<^verbatim>\<open>command\<close>), the image decoder (\<^verbatim>\<open>Jimp.read\<close>) and the
    Coordinate Mapper (\<^verbatim>\<open>parseBoxToScreenCoords\<close> of the SDK).
\<close>

subsection \<open>Numbers and strings of the host language\<close>

definition digit_char :: "nat \<Rightarrow> char" where
  "digit_char d = ''0123456789'' ! d"

text \<open>A counting number inside a template literal: its decimal digits.\<close>

fun show_nat :: "nat \<Rightarrow> string" where
  "show_nat n =
     (if n < 10 then [digit_char n] else show_nat (n div 10) @ [digit_char (n mod 10)])"

declare show_nat.simps [simp del]

text \<open>An integer inside a template literal (what \<^verbatim>\<open>Math.round\<close> returns).\<close>

definition show_int :: "int \<Rightarrow> string" where
  "show_int i = (if i < 0 then CHR ''-'' # show_nat (nat (- i)) else show_nat (nat i))"

text \<open>\<^verbatim>\<open>Math.round\<close>: the nearest integer, a tie going up.\<close>

definition Math_round :: "rat \<Rightarrow> int" where
  "Math_round x = \<lfloor>x + 1 / 2\<rfloor>"

text \<open>
  The white space that \<^verbatim>\<open>String.prototype.trim\<close> removes, among the code units below 256:
  tab, line feed, vertical tab, form feed, carriage return, space and no-break space.
\<close>

definition is_white_space :: "char \<Rightarrow> bool" where
  "is_white_space c =
     (c = CHR 0x09 \<or> c = CHR 0x0A \<or> c = CHR 0x0B \<or> c = CHR 0x0C \<or> c = CHR 0x0D \<or>
      c = CHR 0x20 \<or> c = CHR 0xA0)"

definition trim :: "string \<Rightarrow> string" where
  "trim s = rev (dropWhile is_white_space (rev (dropWhile is_white_space s)))"

text \<open>
  \<^verbatim>\<open>content.replace(/(['"\\])/g, '\\$1')\<close>: the string is scanned from the left, and each
  single quote, double quote or backslash is replaced by a backslash and itself.
\<close>

definition shell_special :: "char \<Rightarrow> bool" where
  "shell_special c = (c = CHR 0x27 \<or> c = CHR 0x22 \<or> c = CHR 0x5C)"

fun escape_content :: "string \<Rightarrow> string" where
  "escape_content [] = []"
| "escape_content (c # cs) =
     (if shell_special c then CHR 0x5C # c # escape_content cs else c # escape_content cs)"

text \<open>\<^verbatim>\<open>Buffer.toString('base64')\<close>: the standard alphabet, padded with \<^verbatim>\<open>=\<close>.\<close>

type_synonym byte = "8 word"

definition base64_alphabet :: string where
  "base64_alphabet = ''ABCDEFGHIJKLMNOPQRSTUVWXYZabcdefghijklmnopqrstuvwxyz0123456789+/''"

definition base64_digit :: "nat \<Rightarrow> char" where
  "base64_digit n = base64_alphabet ! (n mod 64)"

fun toString_base64 :: "byte list \<Rightarrow> string" where
  "toString_base64 [] = []"
| "toString_base64 [a] =
     (let n = unat a * 65536
      in [base64_digit (n div 262144), base64_digit (n div 4096), CHR ''='', CHR ''=''])"
| "toString_base64 [a, b] =
     (let n = unat a * 65536 + unat b * 256
      in [base64_digit (n div 262144), base64_digit (n div 4096), base64_digit (n div 64),
          CHR ''=''])"
| "toString_base64 (a # b # c # rest) =
     (let n = unat a * 65536 + unat b * 256 + unat c
      in [base64_digit (n div 262144), base64_digit (n div 4096), base64_digit (n div 64),
          base64_digit n] @ toString_base64 rest)"

subsection \<open>Data model\<close>

type_synonym path = string

text \<open>The parsed prediction and the parameters of \<^verbatim>\<open>execute\<close>; an absent input is \<open>None\<close>.\<close>

record ActionInputs =
  start_box :: "string option"
  end_box :: "string option"
  content :: "string option"

record PredictionParsed =
  action_type :: string
  action_inputs :: ActionInputs

record ExecuteParams =
  parsedPrediction :: PredictionParsed
  screenWidth :: nat
  screenHeight :: nat

record ScreenshotOutput =
  base64 :: string
  width :: nat
  height :: nat
  scaleFactor :: nat

text \<open>The two fields of the class \<^verbatim>\<open>AdbOperator\<close>, and its constructor.\<close>

record AdbOperator =
  deviceId :: string
  currentRound :: nat

definition new_AdbOperator :: "string \<Rightarrow> AdbOperator" where
  "new_AdbOperator d = \<lparr>deviceId = d, currentRound = 0\<rparr>"

text \<open>
  What the operator can throw: the rejection of a command by the Command Runner (a
  failure or a timeout), a file that is not there, a file that is no image.
\<close>

datatype error = CommandFailed string | FileNotFound path | DecodeFailed path

datatype log_level = Info | Warn | Error

datatype log_arg =
  LStr string
| LNum nat
| LCoord "rat option"
| LPrediction PredictionParsed
| LInputs ActionInputs
| LError error

type_synonym host_files = "path \<rightharpoonup> byte list"

text \<open>
  The world outside the operator: \<open>files\<close> are the files of the working directory,
  \<open>device\<close> is whatever state the device and its bridge have, \<open>issued\<close> are the commands
  handed to the Command Runner, \<open>opened\<close> the paths the operator asked to read and
  \<open>logs\<close> the calls of the logger, all three oldest first.
\<close>

record 'd world =
  files :: host_files
  device :: 'd
  issued :: "string list"
  opened :: "path list"
  logs :: "(log_level \<times> log_arg list) list"

text \<open>
  The collaborators. \<open>run cmd timeout (files, device)\<close> is one invocation of the Command
  Runner: \<open>None\<close> when the command fails or times out (the promise rejects), its standard
  output otherwise, and what the command did to the files and the device. \<open>decode\<close>
  gives the width and height of an image file, \<open>None\<close> when the bytes are no image.
  \<open>parseBox boxStr screenWidth screenHeight\<close> is the Coordinate Mapper.
\<close>

record 'd env =
  run :: "string \<Rightarrow> nat \<Rightarrow> host_files \<times> 'd \<Rightarrow> string option \<times> host_files \<times> 'd"
  decode :: "byte list \<Rightarrow> (nat \<times> nat) option"
  parseBox :: "string \<Rightarrow> nat \<Rightarrow> nat \<Rightarrow> rat option \<times> rat option"

subsection \<open>The helpers of the module\<close>

text \<open>\<^verbatim>\<open>commandWithTimeout(cmd, timeout = 3000)\<close>.\<close>

definition default_timeout :: nat where
  "default_timeout = 3000"

definition commandWithTimeout :: "'d env \<Rightarrow> string \<Rightarrow> nat \<Rightarrow> 'd world \<Rightarrow> (error + string) \<times> 'd world" where
  "commandWithTimeout e cmd timeout w =
     (case run e cmd timeout (files w, device w) of
        (out, fs, dev) \<Rightarrow>
          ((case out of None \<Rightarrow> Inl (CommandFailed cmd) | Some s \<Rightarrow> Inr s),
           w\<lparr>files := fs, device := dev, issued := issued w @ [cmd]\<rparr>))"

definition logger :: "log_level \<Rightarrow> log_arg list \<Rightarrow> 'd world \<Rightarrow> 'd world" where
  "logger lvl args w = w\<lparr>logs := logs w @ [(lvl, args)]\<rparr>"

text \<open>A relative path names a file of the working directory, with or without \<^verbatim>\<open>./\<close>.\<close>

definition norm_path :: "path \<Rightarrow> path" where
  "norm_path p = (if take 2 p = ''./'' then drop 2 p else p)"

definition readFileSync :: "path \<Rightarrow> 'd world \<Rightarrow> (error + byte list) \<times> 'd world" where
  "readFileSync p w =
     ((case files w (norm_path p) of None \<Rightarrow> Inl (FileNotFound p) | Some bs \<Rightarrow> Inr bs),
      w\<lparr>opened := opened w @ [p]\<rparr>)"

text \<open>\<^verbatim>\<open>Jimp.read(path)\<close>, of which the operator uses the bitmap's width and height only.\<close>

definition Jimp_read :: "'d env \<Rightarrow> path \<Rightarrow> 'd world \<Rightarrow> (error + nat \<times> nat) \<times> 'd world" where
  "Jimp_read e p w =
     ((case files w (norm_path p) of
         None \<Rightarrow> Inl (FileNotFound p)
       | Some bs \<Rightarrow> (case decode e bs of None \<Rightarrow> Inl (DecodeFailed p) | Some d \<Rightarrow> Inr d)),
      w\<lparr>opened := opened w @ [p]\<rparr>)"

text \<open>\<^verbatim>\<open>x || ''\<close> on an optional string.\<close>

definition or_empty :: "string option \<Rightarrow> string" where
  "or_empty s = (case s of None \<Rightarrow> [] | Some t \<Rightarrow> t)"

subsection \<open>execute\<close>

definition tap_command :: "string \<Rightarrow> rat \<Rightarrow> rat \<Rightarrow> string" where
  "tap_command dev x y =
     ''adb -s '' @ dev @ '' shell input tap '' @ show_int (Math_round x) @ '' '' @
     show_int (Math_round y)"

definition text_command :: "string \<Rightarrow> string \<Rightarrow> string" where
  "text_command dev escapedContent =
     ''adb -s '' @ dev @ '' shell input text '' @ [CHR 0x22] @ escapedContent @ [CHR 0x22]"

definition swipe_command :: "string \<Rightarrow> rat \<Rightarrow> rat \<Rightarrow> rat \<Rightarrow> rat \<Rightarrow> string" where
  "swipe_command dev x1 y1 x2 y2 =
     ''adb -s '' @ dev @ '' shell input swipe '' @ show_int (Math_round x1) @ '' '' @
     show_int (Math_round y1) @ '' '' @ show_int (Math_round x2) @ '' '' @
     show_int (Math_round y2) @ '' 300''"

text \<open>
  The \<^verbatim>\<open>switch\<close> inside the \<^verbatim>\<open>try\<close> block: each branch awaits at most one command, and a
  rejected command leaves the block at once.
\<close>

definition execute_switch ::
  "'d env \<Rightarrow> AdbOperator \<Rightarrow> ExecuteParams \<Rightarrow> rat option \<Rightarrow> rat option \<Rightarrow> 'd world \<Rightarrow>
   (error + unit) \<times> 'd world" where
  "execute_switch e this params startX startY w =
     (let inputs = action_inputs (parsedPrediction params);
          atype = action_type (parsedPrediction params)
      in if atype = ''click'' then
           (case (startX, startY) of
              (Some x, Some y) \<Rightarrow>
                (case commandWithTimeout e (tap_command (deviceId this) x y) default_timeout w of
                   (r, w') \<Rightarrow> (map_sum id (\<lambda>_. ()) r, w'))
            | _ \<Rightarrow> (Inr (), w))
         else if atype = ''type'' then
           (case map_option trim (content inputs) of
              Some c \<Rightarrow>
                if c \<noteq> [] then
                  (case commandWithTimeout e
                          (text_command (deviceId this) (escape_content c)) default_timeout w of
                     (r, w') \<Rightarrow> (map_sum id (\<lambda>_. ()) r, w'))
                else (Inr (), w)
            | None \<Rightarrow> (Inr (), w))
         else if atype = ''swipe'' then
           (case end_box inputs of
              Some eb \<Rightarrow>
                if eb \<noteq> [] then
                  (case parseBox e eb (screenWidth params) (screenHeight params) of
                     (endX, endY) \<Rightarrow>
                       (case (startX, startY, endX, endY) of
                          (Some x1, Some y1, Some x2, Some y2) \<Rightarrow>
                            (case commandWithTimeout e
                                    (swipe_command (deviceId this) x1 y1 x2 y2) default_timeout w of
                               (r, w') \<Rightarrow> (map_sum id (\<lambda>_. ()) r, w'))
                        | _ \<Rightarrow> (Inr (), w)))
                else (Inr (), w)
            | None \<Rightarrow> (Inr (), w))
         else
           (Inr (), logger Warn [LStr (''[AdbOperator] Unsupported action: '' @ atype)] w))"

text \<open>
  \<^verbatim>\<open>execute(params)\<close>: three log lines, the start box resolved, the \<^verbatim>\<open>switch\<close>, and the
  \<^verbatim>\<open>catch\<close> that logs an error and throws it again. The operator is returned as it is
  left. An absent or empty \<^verbatim>\<open>end_box\<close> is falsy and skips the swipe.
\<close>

definition execute ::
  "'d env \<Rightarrow> AdbOperator \<Rightarrow> ExecuteParams \<Rightarrow> 'd world \<Rightarrow> (error + unit) \<times> AdbOperator \<times> 'd world" where
  "execute e this params w0 =
     (let pp = parsedPrediction params;
          startBoxStr = or_empty (start_box (action_inputs pp));
          w1 = logger Info [LStr ''[AdbOperator] execute'', LPrediction pp,
                  LNum (screenWidth params), LNum (screenHeight params)] w0;
          w2 = logger Info [LStr ''[AdbOperator] execute'', LStr (action_type pp),
                  LInputs (action_inputs pp), LStr startBoxStr] w1
      in case parseBox e startBoxStr (screenWidth params) (screenHeight params) of
           (startX, startY) \<Rightarrow>
             (let w3 = logger Info [LStr ''[AdbOperator] execute'', LStr (action_type pp),
                          LCoord startX, LCoord startY, LInputs (action_inputs pp)] w2
              in case execute_switch e this params startX startY w3 of
                   (Inl err, w4) \<Rightarrow>
                     (Inl err, this, logger Error [LStr ''[AdbOperator] Error:'', LError err] w4)
                 | (Inr u, w4) \<Rightarrow> (Inr u, this, w4)))"

subsection \<open>screenshot\<close>

definition screencap_command :: "string \<Rightarrow> string" where
  "screencap_command dev =
     ''adb -s '' @ dev @ '' shell screencap -p /sdcard/uitars_screenshot.png''"

text \<open>The host-local file of a round, as both the pull and the decoding name it.\<close>

definition round_file :: "nat \<Rightarrow> path" where
  "round_file r = ''./uitars_screenshot_'' @ show_nat r @ ''.png''"

definition pull_command :: "string \<Rightarrow> nat \<Rightarrow> string" where
  "pull_command dev r =
     ''adb -s '' @ dev @ '' pull /sdcard/uitars_screenshot.png '' @ round_file r"

text \<open>\<^verbatim>\<open>.catch(() => ({ stdout: '' }))\<close> followed by \<^verbatim>\<open>.stdout\<close>.\<close>

definition stdout_or_empty :: "error + string \<Rightarrow> string" where
  "stdout_or_empty r = (case r of Inl _ \<Rightarrow> [] | Inr out \<Rightarrow> out)"

text \<open>
  The end of \<^verbatim>\<open>screenshot()\<close>, from the settled \<^verbatim>\<open>Jimp.read\<close> on: the width and height, the
  bytes of \<^verbatim>\<open>uitars_screenshot.png\<close> as base64, the log line and the result; the \<^verbatim>\<open>catch\<close>
  block logs whatever was thrown and throws it again.
\<close>

definition screenshot_finish ::
  "error + nat \<times> nat \<Rightarrow> 'd world \<Rightarrow> (error + ScreenshotOutput) \<times> 'd world" where
  "screenshot_finish img w =
     (case img of
        Inl err \<Rightarrow>
          (Inl err, logger Error [LStr ''[AdbOperator] Screenshot error:'', LError err] w)
      | Inr (wd, ht) \<Rightarrow>
          (case readFileSync ''uitars_screenshot.png'' w of
             (Inl err, w') \<Rightarrow>
               (Inl err, logger Error [LStr ''[AdbOperator] Screenshot error:'', LError err] w')
           | (Inr imageBuffer, w') \<Rightarrow>
               (Inr \<lparr>base64 = toString_base64 imageBuffer, width = wd, height = ht,
                     scaleFactor = 1\<rparr>,
                logger Info [LStr (''[AdbOperator] screenshot: '' @ show_nat wd @ ''x'' @
                               show_nat ht @ '', scaleFactor: 1'')] w')))"

text \<open>
  \<^verbatim>\<open>screenshot()\<close>, run from its first line to its last with nothing in between. The
  counter is a field of the operator, read again at each use.
\<close>

definition screenshot ::
  "'d env \<Rightarrow> AdbOperator \<Rightarrow> 'd world \<Rightarrow> (error + ScreenshotOutput) \<times> AdbOperator \<times> 'd world" where
  "screenshot e this0 w0 =
     (let this = this0\<lparr>currentRound := currentRound this0 + 1\<rparr>
      in case commandWithTimeout e (screencap_command (deviceId this)) default_timeout w0 of
           (screencap, w1) \<Rightarrow>
             (let w2 = logger Info [LStr ''[AdbOperator] screencap'',
                          LStr (stdout_or_empty screencap)] w1
              in case commandWithTimeout e
                        (pull_command (deviceId this) (currentRound this)) default_timeout w2 of
                   (pullScreenshot, w3) \<Rightarrow>
                     (let w4 = logger Info [LStr ''[AdbOperator] pullScreenshot'',
                                  LStr (stdout_or_empty pullScreenshot)] w3
                      in case Jimp_read e (round_file (currentRound this)) w4 of
                           (img, w5) \<Rightarrow>
                             (case screenshot_finish img w5 of
                                (r, w6) \<Rightarrow> (r, this, w6)))))"

text \<open>\<open>n\<close> calls of \<^verbatim>\<open>screenshot()\<close> one after the other, with the results oldest first.\<close>

fun screenshots ::
  "'d env \<Rightarrow> nat \<Rightarrow> AdbOperator \<Rightarrow> 'd world \<Rightarrow>
   (error + ScreenshotOutput) list \<times> AdbOperator \<times> 'd world" where
  "screenshots e 0 this w = ([], this, w)"
| "screenshots e (Suc n) this w =
     (case screenshot e this w of
        (r, this', w') \<Rightarrow>
          (case screenshots e n this' w' of (rs, this'', w'') \<Rightarrow> (r # rs, this'', w'')))"

subsection \<open>screenshot, one awaited segment at a time\<close>

text \<open>
  \<^verbatim>\<open>screenshot()\<close> is an \<^verbatim>\<open>async\<close> function with three \<^verbatim>\<open>await\<close>s, so a call runs in four
  segments, and other code of the same thread (another call of \<^verbatim>\<open>screenshot()\<close>) can run
  between two of them. A \<open>call\<close> is where one call stands: not started, or suspended at
  one of the \<^verbatim>\<open>await\<close>s with the value it waits for, or settled. The awaited operation is
  taken to run when it is started.
\<close>

datatype call =
  Entry
| AwaitScreencap "error + string"
| AwaitPull "error + string"
| AwaitRead "error + nat \<times> nat"
| Settled "error + ScreenshotOutput"

fun screenshot_step ::
  "'d env \<Rightarrow> call \<Rightarrow> AdbOperator \<times> 'd world \<Rightarrow> call \<times> AdbOperator \<times> 'd world" where
  "screenshot_step e Entry (this0, w) =
     (let this = this0\<lparr>currentRound := currentRound this0 + 1\<rparr>
      in case commandWithTimeout e (screencap_command (deviceId this)) default_timeout w of
           (screencap, w') \<Rightarrow> (AwaitScreencap screencap, this, w'))"
| "screenshot_step e (AwaitScreencap screencap) (this, w) =
     (let w1 = logger Info [LStr ''[AdbOperator] screencap'', LStr (stdout_or_empty screencap)] w
      in case commandWithTimeout e
                (pull_command (deviceId this) (currentRound this)) default_timeout w1 of
           (pullScreenshot, w') \<Rightarrow> (AwaitPull pullScreenshot, this, w'))"
| "screenshot_step e (AwaitPull pullScreenshot) (this, w) =
     (let w1 = logger Info [LStr ''[AdbOperator] pullScreenshot'',
                  LStr (stdout_or_empty pullScreenshot)] w
      in case Jimp_read e (round_file (currentRound this)) w1 of
           (img, w') \<Rightarrow> (AwaitRead img, this, w'))"
| "screenshot_step e (AwaitRead img) (this, w) =
     (case screenshot_finish img w of (r, w') \<Rightarrow> (Settled r, this, w'))"
| "screenshot_step e (Settled r) (this, w) = (Settled r, this, w)"

text \<open>
  Two calls on one operator. A schedule says whose segment runs next; the operator and
  the world are shared.
\<close>

datatype caller = First | Second

fun interleave ::
  "'d env \<Rightarrow> caller list \<Rightarrow> call \<times> call \<times> AdbOperator \<times> 'd world \<Rightarrow>
   call \<times> call \<times> AdbOperator \<times> 'd world" where
  "interleave e [] s = s"
| "interleave e (First # sched) (a, b, this, w) =
     (case screenshot_step e a (this, w) of
        (a', this', w') \<Rightarrow> interleave e sched (a', b, this', w'))"
| "interleave e (Second # sched) (a, b, this, w) =
     (case screenshot_step e b (this, w) of
        (b', this', w') \<Rightarrow> interleave e sched (a, b', this', w'))"

subsection \<open>The Coordinate Mapper as the specification describes it\<close>

text \<open>\<^verbatim>\<open>String.prototype.split\<close> at a one-character separator.\<close>

fun split_on :: "char \<Rightarrow> string \<Rightarrow> string list" where
  "split_on sep [] = [[]]"
| "split_on sep (c # cs) =
     (if c = sep then [] # split_on sep cs
      else (case split_on sep cs of [] \<Rightarrow> [[c]] | p # ps \<Rightarrow> (c # p) # ps))"

definition digit_value :: "char \<Rightarrow> nat option" where
  "digit_value c =
     (let n = (of_char c :: nat) in if 48 \<le> n \<and> n \<le> 57 then Some (n - 48) else None)"

fun digits_value :: "string \<Rightarrow> nat \<Rightarrow> nat option" where
  "digits_value [] acc = Some acc"
| "digits_value (c # cs) acc =
     (case digit_value c of None \<Rightarrow> None | Some d \<Rightarrow> digits_value cs (10 * acc + d))"

text \<open>A decimal numeral: digits, or digits, a point and digits.\<close>

definition parse_decimal :: "string \<Rightarrow> rat option" where
  "parse_decimal s =
     (case split_on CHR ''.'' s of
        [i] \<Rightarrow> (if i = [] then None else map_option of_nat (digits_value i 0))
      | [i, f] \<Rightarrow>
          (if i = [] \<or> f = [] then None
           else (case (digits_value i 0, digits_value f 0) of
                   (Some a, Some b) \<Rightarrow> Some (of_nat a + of_nat b / 10 ^ length f)
                 | _ \<Rightarrow> None))
      | _ \<Rightarrow> None)"

text \<open>
  Modelled from the spec: \<^verbatim>\<open>parseBoxToScreenCoords\<close> is imported from the SDK package and
  its source is not part of the files at hand. The specification (4.2, 8) says: the box
  string holds one point or the two corners of a box, as normalized numbers separated by
  commas; the two corners are averaged to a centroid; the point is scaled by the screen's
  width and height and not rounded; an empty, non-numeric or wrong-arity string gives
  \<^verbatim>\<open>(null, null)\<close>. It gives no rule for numbers out of range, and none is modelled.
\<close>

definition parseBoxToScreenCoords_spec :: "string \<Rightarrow> nat \<Rightarrow> nat \<Rightarrow> rat option \<times> rat option" where
  "parseBoxToScreenCoords_spec boxStr sw sh =
     (case map (\<lambda>part. parse_decimal (trim part)) (split_on CHR '','' boxStr) of
        [Some x, Some y] \<Rightarrow> (Some (x * of_nat sw), Some (y * of_nat sh))
      | [Some x1, Some y1, Some x2, Some y2] \<Rightarrow>
          (Some ((x1 + x2) / 2 * of_nat sw), Some ((y1 + y2) / 2 * of_nat sh))
      | _ \<Rightarrow> (None, None))"

subsection \<open>Collaborators for concrete runs\<close>

text \<open>
  A simulated device and bridge: \<^verbatim>\<open>screencap -p P\<close> writes the screen to \<open>P\<close> on the
  device, \<^verbatim>\<open>pull P Q\<close> copies the device's \<open>P\<close> to the host's \<open>Q\<close> and fails when there
  is no \<open>P\<close>, every other command succeeds and changes nothing.
\<close>

record phone =
  screen :: "byte list"
  sdcard :: "path \<rightharpoonup> byte list"

definition simulated_adb ::
  "string \<Rightarrow> nat \<Rightarrow> host_files \<times> phone \<Rightarrow> string option \<times> host_files \<times> phone" where
  "simulated_adb cmd timeout s =
     (case s of
        (fs, ph) \<Rightarrow>
          (let ws = split_on CHR '' '' cmd
           in if length ws = 7 \<and> take 2 (drop 3 ws) = [''shell'', ''screencap''] then
                (Some [], fs, ph\<lparr>sdcard := (sdcard ph)(ws ! 6 \<mapsto> screen ph)\<rparr>)
              else if length ws = 6 \<and> ws ! 3 = ''pull'' then
                (case sdcard ph (ws ! 4) of
                   None \<Rightarrow> (None, fs, ph)
                 | Some bs \<Rightarrow> (Some [], fs(norm_path (ws ! 5) \<mapsto> bs), ph))
              else (Some [], fs, ph)))"

text \<open>A bridge on which every command fails or times out, and nothing changes.\<close>

definition unreachable_adb ::
  "string \<Rightarrow> nat \<Rightarrow> host_files \<times> phone \<Rightarrow> string option \<times> host_files \<times> phone" where
  "unreachable_adb cmd timeout s = (None, s)"

text \<open>
  A stand-in for the decoder: it accepts a file that starts with the PNG signature and an
  \<^verbatim>\<open>IHDR\<close> chunk, and reads the width and height there (big-endian, four bytes each).
\<close>

definition be32 :: "byte list \<Rightarrow> nat" where
  "be32 bs = foldl (\<lambda>acc b. acc * 256 + unat b) 0 bs"

definition png_start :: "byte list" where
  "png_start = [137, 80, 78, 71, 13, 10, 26, 10, 0, 0, 0, 13, 73, 72, 68, 82]"

definition png_header_size :: "byte list \<Rightarrow> (nat \<times> nat) option" where
  "png_header_size bs =
     (if take 16 bs = png_start \<and> 24 \<le> length bs
      then Some (be32 (take 4 (drop 16 bs)), be32 (take 4 (drop 20 bs))) else None)"

definition simulated_env :: "phone env" where
  "simulated_env =
     \<lparr>run = simulated_adb, decode = png_header_size, parseBox = parseBoxToScreenCoords_spec\<rparr>"

definition unreachable_env :: "phone env" where
  "unreachable_env =
     \<lparr>run = unreachable_adb, decode = png_header_size, parseBox = parseBoxToScreenCoords_spec\<rparr>"

text \<open>Two image files: the start of a 1080 x 2400 PNG and of a 720 x 1280 PNG.\<close>

definition png_1080x2400 :: "byte list" where
  "png_1080x2400 = png_start @ [0, 0, 4, 56, 0, 0, 9, 96, 8, 6, 0, 0, 0]"

definition png_720x1280 :: "byte list" where
  "png_720x1280 = png_start @ [0, 0, 2, 208, 0, 0, 5, 0, 8, 6, 0, 0, 0]"

definition a_phone :: phone where
  "a_phone = \<lparr>screen = png_1080x2400, sdcard = Map.empty\<rparr>"

text \<open>A world with the given files in the working directory and nothing done yet.\<close>

definition world_with :: "host_files \<Rightarrow> phone world" where
  "world_with fs = \<lparr>files = fs, device = a_phone, issued = [], opened = [], logs = []\<rparr>"

subsection \<open>Auxiliary definitions\<close>

text \<open>The three lines \<^verbatim>\<open>execute\<close> logs before its \<^verbatim>\<open>switch\<close>.\<close>

definition entry_logs :: "'d env \<Rightarrow> ExecuteParams \<Rightarrow> (log_level \<times> log_arg list) list" where
  "entry_logs e p =
     (let pp = parsedPrediction p;
          sb = or_empty (start_box (action_inputs pp));
          xy = parseBox e sb (screenWidth p) (screenHeight p)
      in [(Info, [LStr ''[AdbOperator] execute'', LPrediction pp, LNum (screenWidth p),
                  LNum (screenHeight p)]),
          (Info, [LStr ''[AdbOperator] execute'', LStr (action_type pp),
                  LInputs (action_inputs pp), LStr sb]),
          (Info, [LStr ''[AdbOperator] execute'', LStr (action_type pp), LCoord (fst xy),
                  LCoord (snd xy), LInputs (action_inputs pp)])])"

text \<open>Parameters of \<^verbatim>\<open>execute\<close> for concrete runs.\<close>

definition action :: "string \<Rightarrow> string option \<Rightarrow> string option \<Rightarrow> string option \<Rightarrow> nat \<Rightarrow> nat \<Rightarrow> ExecuteParams" where
  "action atype sb eb c sw sh =
     \<lparr>parsedPrediction =
        \<lparr>action_type = atype, action_inputs = \<lparr>start_box = sb, end_box = eb, content = c\<rparr>\<rparr>,
      screenWidth = sw, screenHeight = sh\<rparr>"

text \<open>
  The files and the device after the two commands of a call of \<^verbatim>\<open>screenshot()\<close>, the capture
  and the pull, whatever they returned.
\<close>

definition after_commands :: "'d env \<Rightarrow> AdbOperator \<Rightarrow> 'd world \<Rightarrow> host_files \<times> 'd" where
  "after_commands e this w =
     snd (run e (pull_command (deviceId this) (currentRound this + 1)) default_timeout
            (snd (run e (screencap_command (deviceId this)) default_timeout
                    (files w, device w))))"

text \<open>
  Two calls of \<^verbatim>\<open>screenshot()\<close> on one new operator, the second starting while the first
  waits for its capture, and their segments alternating from then on. The device shows a
  1080 x 2400 screen; the working directory holds an older 720 x 1280 image under the name
  \<^verbatim>\<open>uitars_screenshot.png\<close>.
\<close>

definition two_overlapping_calls :: "call \<times> call \<times> AdbOperator \<times> phone world" where
  "two_overlapping_calls =
     interleave simulated_env [First, Second, First, Second, First, Second, First, Second]
       (Entry, Entry, new_AdbOperator ''emu'',
        world_with [''uitars_screenshot.png'' \<mapsto> png_720x1280])"

section \<open>Basic facts\<close>

subsection \<open>Facts about the helpers and about execute\<close>

lemma logger_fields [simp]:
  "files (logger l a w) = files w" "device (logger l a w) = device w"
  "issued (logger l a w) = issued w" "opened (logger l a w) = opened w"
  "logs (logger l a w) = logs w @ [(l, a)]"
  by (simp_all add: logger_def)

lemma commandWithTimeout_fields [simp]:
  "issued (snd (commandWithTimeout e c t w)) = issued w @ [c]"
  "opened (snd (commandWithTimeout e c t w)) = opened w"
  "logs (snd (commandWithTimeout e c t w)) = logs w"
  "files (snd (commandWithTimeout e c t w)) = fst (snd (run e c t (files w, device w)))"
  "device (snd (commandWithTimeout e c t w)) = snd (snd (run e c t (files w, device w)))"
  by (simp_all add: commandWithTimeout_def split: prod.splits)

lemma commandWithTimeout_result:
  "fst (commandWithTimeout e c t w) =
     (case fst (run e c t (files w, device w)) of None \<Rightarrow> Inl (CommandFailed c) | Some s \<Rightarrow> Inr s)"
  by (simp add: commandWithTimeout_def split: prod.splits)

lemma execute_unfold:
  "execute e this p w =
     (let xy = parseBox e (or_empty (start_box (action_inputs (parsedPrediction p))))
                 (screenWidth p) (screenHeight p);
          r = execute_switch e this p (fst xy) (snd xy) (w\<lparr>logs := logs w @ entry_logs e p\<rparr>)
      in (fst r, this,
          case fst r of
            Inl err \<Rightarrow> logger Error [LStr ''[AdbOperator] Error:'', LError err] (snd r)
          | Inr _ \<Rightarrow> snd r))"
  by (simp add: execute_def Let_def case_prod_beta logger_def entry_logs_def split: sum.splits)

lemma execute_issued:
  "issued (snd (snd (execute e this p w))) =
   issued (snd (execute_switch e this p
      (fst (parseBox e (or_empty (start_box (action_inputs (parsedPrediction p)))) (screenWidth p) (screenHeight p)))
      (snd (parseBox e (or_empty (start_box (action_inputs (parsedPrediction p)))) (screenWidth p) (screenHeight p)))
      (w\<lparr>logs := logs w @ entry_logs e p\<rparr>)))"
  by (simp add: execute_unfold Let_def split: sum.splits)

lemma execute_result:
  "fst (execute e this p w) =
   fst (execute_switch e this p
      (fst (parseBox e (or_empty (start_box (action_inputs (parsedPrediction p)))) (screenWidth p) (screenHeight p)))
      (snd (parseBox e (or_empty (start_box (action_inputs (parsedPrediction p)))) (screenWidth p) (screenHeight p)))
      (w\<lparr>logs := logs w @ entry_logs e p\<rparr>))"
  by (simp add: execute_unfold Let_def)

lemma switch_click_issued:
  "action_type (parsedPrediction p) = ''click'' \<Longrightarrow>
   issued (snd (execute_switch e this p sx sy w)) =
   issued w @ (case (sx, sy) of (Some x, Some y) \<Rightarrow> [tap_command (deviceId this) x y] | _ \<Rightarrow> [])"
  by (simp add: execute_switch_def Let_def case_prod_beta split: option.splits)



lemma switch_other:
  "action_type (parsedPrediction p) \<notin> {''click'', ''type'', ''swipe''} \<Longrightarrow>
   execute_switch e this p sx sy w =
   (Inr (), logger Warn [LStr (''[AdbOperator] Unsupported action: '' @ action_type (parsedPrediction p))] w)"
  by (simp add: execute_switch_def Let_def)

text \<open>Whatever the action, the switch issues no command and returns, or issues one command and returns what it gave.\<close>

lemma switch_outcome:
  "(issued (snd (execute_switch e this p sx sy w)) = issued w \<and>
    fst (execute_switch e this p sx sy w) = Inr ()) \<or>
   (\<exists>c. issued (snd (execute_switch e this p sx sy w)) = issued w @ [c] \<and>
        fst (execute_switch e this p sx sy w) =
          (case fst (run e c default_timeout (files w, device w)) of
             None \<Rightarrow> Inl (CommandFailed c) | Some _ \<Rightarrow> Inr ()))"
  by (simp add: execute_switch_def Let_def case_prod_beta commandWithTimeout_result
      split: option.splits)


subsection \<open>Decimal digits and file names\<close>

lemma digit_value_digit_char: "d < 10 \<Longrightarrow> digit_value (digit_char d) = Some d"
proof -
  assume "d < 10"
  then have "d \<in> {0, 1, 2, 3, 4, 5, 6, 7, 8, 9}" by auto
  then show ?thesis
    by (auto simp: digit_value_def digit_char_def)
qed

lemma digits_value_append:
  "digits_value (xs @ ys) acc =
     (case digits_value xs acc of None \<Rightarrow> None | Some a \<Rightarrow> digits_value ys a)"
  by (induction xs arbitrary: acc) (simp_all split: option.splits)

lemma digits_value_show_nat: "digits_value (show_nat n) 0 = Some n"
proof (induction n rule: show_nat.induct)
  case (1 n)
  show ?case
  proof (cases "n < 10")
    case True
    then show ?thesis
      by (simp add: show_nat.simps [of n] digit_value_digit_char)
  next
    case False
    with 1 have "digits_value (show_nat (n div 10)) 0 = Some (n div 10)" by simp
    with False show ?thesis
      by (simp add: show_nat.simps [of n] digits_value_append digit_value_digit_char)
  qed
qed

lemma show_nat_inject: "show_nat a = show_nat b \<longleftrightarrow> a = b"
proof
  assume "show_nat a = show_nat b"
  then have "digits_value (show_nat a) 0 = digits_value (show_nat b) 0" by simp
  then show "a = b" by (simp add: digits_value_show_nat)
qed simp

lemma round_file_inject: "round_file a = round_file b \<longleftrightarrow> a = b"
  by (simp add: round_file_def show_nat_inject)

lemma pull_command_inject: "pull_command d a = pull_command d b \<longleftrightarrow> a = b"
  by (simp add: pull_command_def round_file_inject)

lemma round_file_not_fixed: "norm_path (round_file r) \<noteq> norm_path ''uitars_screenshot.png''"
  by (simp add: round_file_def norm_path_def)

lemma Math_round_nearest: "\<bar>of_int (Math_round x) - x\<bar> \<le> 1 / 2"
  unfolding Math_round_def by linarith

subsection \<open>Facts about screenshot\<close>

lemma Jimp_read_fields [simp]:
  "files (snd (Jimp_read e p w)) = files w" "device (snd (Jimp_read e p w)) = device w"
  "issued (snd (Jimp_read e p w)) = issued w" "opened (snd (Jimp_read e p w)) = opened w @ [p]"
  "logs (snd (Jimp_read e p w)) = logs w"
  by (simp_all add: Jimp_read_def)

lemma readFileSync_fields [simp]:
  "files (snd (readFileSync p w)) = files w" "device (snd (readFileSync p w)) = device w"
  "issued (snd (readFileSync p w)) = issued w" "opened (snd (readFileSync p w)) = opened w @ [p]"
  "logs (snd (readFileSync p w)) = logs w"
  by (simp_all add: readFileSync_def)

lemma screenshot_finish_fields [simp]:
  "files (snd (screenshot_finish r w)) = files w"
  "device (snd (screenshot_finish r w)) = device w"
  "issued (snd (screenshot_finish r w)) = issued w"
  by (simp_all add: screenshot_finish_def case_prod_beta split: sum.splits)

lemma screenshot_operator:
  "fst (snd (screenshot e this w)) = this\<lparr>currentRound := currentRound this + 1\<rparr>"
  by (simp add: screenshot_def Let_def case_prod_beta)

lemma screenshot_issued:
  "issued (snd (snd (screenshot e this w))) =
     issued w @ [screencap_command (deviceId this),
                 pull_command (deviceId this) (currentRound this + 1)]"
  by (simp add: screenshot_def Let_def case_prod_beta)

lemma screenshots_operator:
  "fst (snd (screenshots e n this w)) = this\<lparr>currentRound := currentRound this + n\<rparr>"
  by (induction n arbitrary: this w) (simp_all add: case_prod_beta screenshot_operator)

lemma screenshots_length: "length (fst (screenshots e n this w)) = n"
  by (induction n arbitrary: this w) (simp_all add: case_prod_beta)

lemma screenshots_issued:
  "issued (snd (snd (screenshots e n this w))) =
     issued w @
     concat (map (\<lambda>k. [screencap_command (deviceId this),
                        pull_command (deviceId this) (currentRound this + Suc k)]) [0..<n])"
proof (induction n arbitrary: this w)
  case 0
  show ?case by simp
next
  case (Suc n)
  have unroll: "[0..<Suc n] = 0 # map Suc [0..<n]"
    by (simp add: upt_conv_Cons map_Suc_upt del: upt_Suc)
  show ?case
    unfolding unroll
    by (simp add: case_prod_beta Suc.IH screenshot_operator screenshot_issued comp_def
        del: upt_Suc)
qed

lemma screenshot_is_four_segments:
  "interleave e [First, First, First, First] (Entry, b, this, w) =
     (Settled (fst (screenshot e this w)), b, snd (screenshot e this w))"
  by (simp add: screenshot_def Let_def case_prod_beta)

subsection \<open>Facts about the Coordinate Mapper of the specification\<close>

lemma split_half_half: "split_on CHR '','' ''0.5,0.5'' = [''0.5'', ''0.5'']"
  by simp

lemma trim_half: "trim ''0.5'' = ''0.5''"
  by (simp add: trim_def is_white_space_def)

lemma parse_decimal_half: "parse_decimal ''0.5'' = Some (1 / 2)"
  by (simp add: parse_decimal_def digit_value_def)

lemma spec_half_half: "parseBoxToScreenCoords_spec ''0.5,0.5'' 1000 2000 = (Some 500, Some 1000)"
  by (simp add: parseBoxToScreenCoords_spec_def split_half_half trim_half parse_decimal_half)

lemma spec_empty: "parseBoxToScreenCoords_spec [] sw sh = (None, None)"
  by (simp add: parseBoxToScreenCoords_spec_def parse_decimal_def trim_def)

lemma show_500: "show_int (Math_round 500) = ''500''" "show_int (Math_round 1000) = ''1000''"
  by code_simp+

subsection \<open>Facts about trimming, and what execute issues for each action\<close>

lemma trim_empty_iff: "trim s = [] \<longleftrightarrow> (\<forall>c \<in> set s. is_white_space c)"
proof -
  have "trim s = [] \<longleftrightarrow> (\<forall>c \<in> set (dropWhile is_white_space s). is_white_space c)"
    by (simp add: trim_def dropWhile_eq_Nil_conv)
  also have "\<dots> \<longleftrightarrow> dropWhile is_white_space s = []"
  proof
    assume all: "\<forall>c \<in> set (dropWhile is_white_space s). is_white_space c"
    show "dropWhile is_white_space s = []"
    proof (rule ccontr)
      assume ne: "dropWhile is_white_space s \<noteq> []"
      then have "\<not> is_white_space (hd (dropWhile is_white_space s))"
        by (rule hd_dropWhile)
      moreover from ne have "hd (dropWhile is_white_space s) \<in> set (dropWhile is_white_space s)"
        by simp
      ultimately show False using all by blast
    qed
  next
    assume "dropWhile is_white_space s = []"
    then show "\<forall>c \<in> set (dropWhile is_white_space s). is_white_space c"
      by (simp del: dropWhile_eq_Nil_conv)
  qed
  also have "\<dots> \<longleftrightarrow> (\<forall>c \<in> set s. is_white_space c)"
    by (simp add: dropWhile_eq_Nil_conv)
  finally show ?thesis .
qed



lemma execute_click_issued:
  assumes "action_type (parsedPrediction p) = ''click''"
  shows "issued (snd (snd (execute e this p w))) =
           issued w @
           (case parseBox e (or_empty (start_box (action_inputs (parsedPrediction p))))
                   (screenWidth p) (screenHeight p) of
              (Some x, Some y) \<Rightarrow> [tap_command (deviceId this) x y]
            | _ \<Rightarrow> [])"
  by (simp add: execute_issued switch_click_issued [OF assms] case_prod_beta
      split: option.splits)



lemma action_fields [simp]:
  "action_type (parsedPrediction (action t sb eb c sw sh)) = t"
  "start_box (action_inputs (parsedPrediction (action t sb eb c sw sh))) = sb"
  "end_box (action_inputs (parsedPrediction (action t sb eb c sw sh))) = eb"
  "content (action_inputs (parsedPrediction (action t sb eb c sw sh))) = c"
  "screenWidth (action t sb eb c sw sh) = sw"
  "screenHeight (action t sb eb c sw sh) = sh"
  by (simp_all add: action_def)

lemma env_fields [simp]:
  "parseBox simulated_env = parseBoxToScreenCoords_spec"
  "parseBox unreachable_env = parseBoxToScreenCoords_spec"
  "run simulated_env = simulated_adb" "run unreachable_env = unreachable_adb"
  "decode simulated_env = png_header_size" "decode unreachable_env = png_header_size"
  by (simp_all add: simulated_env_def unreachable_env_def)

lemma world_with_fields [simp]:
  "files (world_with fs) = fs" "device (world_with fs) = a_phone"
  "issued (world_with fs) = []" "opened (world_with fs) = []" "logs (world_with fs) = []"
  by (simp_all add: world_with_def)

lemma new_AdbOperator_fields [simp]:
  "deviceId (new_AdbOperator d) = d" "currentRound (new_AdbOperator d) = 0"
  by (simp_all add: new_AdbOperator_def)


lemma tap_500_1000: "tap_command ''emu'' 500 1000 = ''adb -s emu shell input tap 500 1000''"
  by (simp add: tap_command_def show_500)

section \<open>The action dispatcher\<close>







text \<open>
  C7. For every call of \<^verbatim>\<open>execute\<close> whose action type is none of \<^verbatim>\<open>click\<close>, \<^verbatim>\<open>type\<close> and
  \<^verbatim>\<open>swipe\<close>: the call returns normally, issues no command, leaves the operator, the files
  and the device as they were, and its last log line is the warning that the action is
  unsupported.
\<close>

theorem unsupported_action_is_logged_and_ignored:
  assumes "action_type (parsedPrediction p) \<notin> {''click'', ''type'', ''swipe''}"
  shows "fst (execute e this p w) = Inr () \<and>
         fst (snd (execute e this p w)) = this \<and>
         issued (snd (snd (execute e this p w))) = issued w \<and>
         files (snd (snd (execute e this p w))) = files w \<and>
         device (snd (snd (execute e this p w))) = device w \<and>
         logs (snd (snd (execute e this p w))) =
           logs w @ entry_logs e p @
           [(Warn, [LStr (''[AdbOperator] Unsupported action: '' @
                          action_type (parsedPrediction p))])]"
  by (simp add: execute_unfold Let_def switch_other [OF assms])

theorem unsupported_action_is_logged_and_ignored_witness:
  "''scroll'' \<notin> {''click'', ''type'', ''swipe''} \<and>
   fst (execute simulated_env (new_AdbOperator ''emu'')
          (action ''scroll'' (Some ''0.5,0.5'') None None 1000 2000) (world_with Map.empty)) =
     Inr () \<and>
   issued (snd (snd (execute simulated_env (new_AdbOperator ''emu'')
          (action ''scroll'' (Some ''0.5,0.5'') None None 1000 2000) (world_with Map.empty)))) =
     [] \<and>
   last (logs (snd (snd (execute simulated_env (new_AdbOperator ''emu'')
          (action ''scroll'' (Some ''0.5,0.5'') None None 1000 2000) (world_with Map.empty))))) =
     (Warn, [LStr ''[AdbOperator] Unsupported action: scroll''])"
proof -
  let ?p = "action ''scroll'' (Some ''0.5,0.5'') None None 1000 2000"
  have h: "action_type (parsedPrediction ?p) \<notin> {''click'', ''type'', ''swipe''}" by simp
  show ?thesis
    using unsupported_action_is_logged_and_ignored [where e = simulated_env and p = ?p
        and this = "new_AdbOperator ''emu''" and w = "world_with Map.empty", OF h]
    by simp
qed

text \<open>
  C8. For every call of \<^verbatim>\<open>execute\<close>: when the call issues a command and the Command Runner
  fails on it, the call throws that failure; when the call issues no command (the
  coordinates did not resolve, the content was empty, the action is unsupported), it
  returns normally.
\<close>

theorem command_failure_is_thrown_and_no_op_returns:
  "(issued (snd (snd (execute e this p w))) = issued w @ [c] \<and>
    fst (run e c default_timeout (files w, device w)) = None \<longrightarrow>
      fst (execute e this p w) = Inl (CommandFailed c)) \<and>
   (issued (snd (snd (execute e this p w))) = issued w \<longrightarrow> fst (execute e this p w) = Inr ())"
  using switch_outcome [of e this p
      "fst (parseBox e (or_empty (start_box (action_inputs (parsedPrediction p))))
            (screenWidth p) (screenHeight p))"
      "snd (parseBox e (or_empty (start_box (action_inputs (parsedPrediction p))))
            (screenWidth p) (screenHeight p))"
      "w\<lparr>logs := logs w @ entry_logs e p\<rparr>"]
  by (auto simp: execute_issued execute_result)

theorem command_failure_is_thrown_and_no_op_returns_witness:
  "fst (execute unreachable_env (new_AdbOperator ''emu'')
          (action ''click'' (Some ''0.5,0.5'') None None 1000 2000) (world_with Map.empty)) =
     Inl (CommandFailed ''adb -s emu shell input tap 500 1000'') \<and>
   fst (execute unreachable_env (new_AdbOperator ''emu'')
          (action ''click'' None None None 1000 2000) (world_with Map.empty)) = Inr () \<and>
   fst (execute unreachable_env (new_AdbOperator ''emu'')
          (action ''scroll'' None None None 1000 2000) (world_with Map.empty)) = Inr ()"
proof -
  let ?tap = "action ''click'' (Some ''0.5,0.5'') None None 1000 2000"
  let ?nowhere = "action ''click'' None None None 1000 2000"
  let ?scroll = "action ''scroll'' None None None 1000 2000"
  let ?c = "''adb -s emu shell input tap 500 1000''"
  have issued_tap: "issued (snd (snd (execute unreachable_env (new_AdbOperator ''emu'') ?tap
                       (world_with Map.empty)))) = issued (world_with Map.empty) @ [?c]"
    by (simp add: execute_click_issued or_empty_def spec_half_half tap_500_1000)
  have fails: "fst (run unreachable_env ?c default_timeout
                 (files (world_with Map.empty), device (world_with Map.empty))) = None"
    by (simp add: unreachable_adb_def)
  have issued_nowhere: "issued (snd (snd (execute unreachable_env (new_AdbOperator ''emu'')
                          ?nowhere (world_with Map.empty)))) = issued (world_with Map.empty)"
    by (simp add: execute_click_issued or_empty_def spec_empty)
  have issued_scroll: "issued (snd (snd (execute unreachable_env (new_AdbOperator ''emu'')
                          ?scroll (world_with Map.empty)))) = issued (world_with Map.empty)"
    by (simp add: execute_issued switch_other)
  have thrown: "fst (execute unreachable_env (new_AdbOperator ''emu'') ?tap
                  (world_with Map.empty)) = Inl (CommandFailed ?c)"
    using command_failure_is_thrown_and_no_op_returns [where e = unreachable_env
        and p = ?tap and this = "new_AdbOperator ''emu''" and w = "world_with Map.empty"
        and c = ?c, THEN conjunct1, THEN mp, OF conjI, OF issued_tap fails] .
  have returns: "fst (execute unreachable_env (new_AdbOperator ''emu'') ?nowhere
                   (world_with Map.empty)) = Inr ()"
    using command_failure_is_thrown_and_no_op_returns [where e = unreachable_env
        and p = ?nowhere and this = "new_AdbOperator ''emu''" and w = "world_with Map.empty",
        THEN conjunct2, THEN mp, OF issued_nowhere] .
  have ignored: "fst (execute unreachable_env (new_AdbOperator ''emu'') ?scroll
                   (world_with Map.empty)) = Inr ()"
    using command_failure_is_thrown_and_no_op_returns [where e = unreachable_env
        and p = ?scroll and this = "new_AdbOperator ''emu''" and w = "world_with Map.empty",
        THEN conjunct2, THEN mp, OF issued_scroll] .
  from thrown returns ignored show ?thesis by simp
qed

section \<open>Facts for the screenshot pipeline\<close>

lemma show_nat_1: "show_nat (Suc 0) = ''1''" "show_nat (Suc (Suc 0)) = ''2''"
  by code_simp+

lemma round_file_1: "round_file (Suc 0) = ''./uitars_screenshot_1.png''"
  "round_file (Suc (Suc 0)) = ''./uitars_screenshot_2.png''"
  by (simp_all add: round_file_def show_nat_1)

lemma sim_screencap:
  "simulated_adb (screencap_command ''emu'') t (fs, ph) =
     (Some [], fs, ph\<lparr>sdcard := (sdcard ph)(''/sdcard/uitars_screenshot.png'' \<mapsto> screen ph)\<rparr>)"
  by (simp add: simulated_adb_def screencap_command_def)

lemma sim_pull_1:
  "simulated_adb (pull_command ''emu'' (Suc 0)) t (fs, ph) =
     (case sdcard ph ''/sdcard/uitars_screenshot.png'' of
        None \<Rightarrow> (None, fs, ph)
      | Some bs \<Rightarrow> (Some [], fs(''uitars_screenshot_1.png'' \<mapsto> bs), ph))"
  by (simp add: simulated_adb_def pull_command_def round_file_1 norm_path_def
      split: option.splits)

lemma sim_pull_2:
  "simulated_adb (pull_command ''emu'' (Suc (Suc 0))) t (fs, ph) =
     (case sdcard ph ''/sdcard/uitars_screenshot.png'' of
        None \<Rightarrow> (None, fs, ph)
      | Some bs \<Rightarrow> (Some [], fs(''uitars_screenshot_2.png'' \<mapsto> bs), ph))"
  by (simp add: simulated_adb_def pull_command_def round_file_1 norm_path_def
      split: option.splits)

lemma decode_1080: "png_header_size png_1080x2400 = Some (1080, 2400)"
  by (simp add: png_header_size_def png_1080x2400_def png_start_def be32_def)

lemma decode_720: "png_header_size png_720x1280 = Some (720, 1280)"
  by (simp add: png_header_size_def png_720x1280_def png_start_def be32_def)

lemma b64_720: "toString_base64 png_720x1280 = ''iVBORw0KGgoAAAANSUhEUgAAAtAAAAUACAYAAAA=''"
  by (simp add: png_720x1280_def png_start_def base64_digit_def base64_alphabet_def)

lemma b64_1080: "toString_base64 png_1080x2400 = ''iVBORw0KGgoAAAANSUhEUgAABDgAAAlgCAYAAAA=''"
  by (simp add: png_1080x2400_def png_start_def base64_digit_def base64_alphabet_def)


lemma screenshot_files:
  "files (snd (snd (screenshot e this w))) = fst (after_commands e this w)"
  "device (snd (snd (screenshot e this w))) = snd (after_commands e this w)"
  by (simp_all add: screenshot_def Let_def case_prod_beta after_commands_def)

lemma screenshot_result:
  "fst (screenshot e this w) =
     (case fst (after_commands e this w) (norm_path (round_file (currentRound this + 1))) of
        None \<Rightarrow> Inl (FileNotFound (round_file (currentRound this + 1)))
      | Some bs \<Rightarrow>
          (case decode e bs of
             None \<Rightarrow> Inl (DecodeFailed (round_file (currentRound this + 1)))
           | Some (wd, ht) \<Rightarrow>
               (case fst (after_commands e this w) ''uitars_screenshot.png'' of
                  None \<Rightarrow> Inl (FileNotFound ''uitars_screenshot.png'')
                | Some b \<Rightarrow>
                    Inr \<lparr>base64 = toString_base64 b, width = wd, height = ht,
                         scaleFactor = 1\<rparr>)))"
  by (simp add: screenshot_def Let_def case_prod_beta after_commands_def Jimp_read_def
      screenshot_finish_def readFileSync_def norm_path_def split: option.splits)

lemma screenshot_opened:
  "opened (snd (snd (screenshot e this w))) =
     opened w @ round_file (currentRound this + 1) #
     (case fst (after_commands e this w) (norm_path (round_file (currentRound this + 1))) of
        None \<Rightarrow> []
      | Some bs \<Rightarrow> (case decode e bs of None \<Rightarrow> [] | Some _ \<Rightarrow> [''uitars_screenshot.png'']))"
  by (simp add: screenshot_def Let_def case_prod_beta after_commands_def Jimp_read_def
      screenshot_finish_def readFileSync_def norm_path_def split: option.splits)

lemma after_simulated:
  "after_commands simulated_env (new_AdbOperator ''emu'') (world_with fs) =
     (fs(''uitars_screenshot_1.png'' \<mapsto> png_1080x2400),
      a_phone\<lparr>sdcard := [''/sdcard/uitars_screenshot.png'' \<mapsto> png_1080x2400]\<rparr>)"
  by (simp add: after_commands_def sim_screencap sim_pull_1 a_phone_def)

lemma after_unreachable:
  "after_commands unreachable_env this (world_with fs) = (fs, a_phone)"
  by (simp add: after_commands_def unreachable_adb_def)

lemma norm_round_1:
  "norm_path ''./uitars_screenshot_1.png'' = ''uitars_screenshot_1.png''"
  "norm_path ''./uitars_screenshot_2.png'' = ''uitars_screenshot_2.png''"
  by (simp_all add: norm_path_def)

lemma execute_switch_ignores_round:
  "execute_switch e (this\<lparr>currentRound := r\<rparr>) p sx sy w = execute_switch e this p sx sy w"
  by (simp add: execute_switch_def Let_def case_prod_beta split: option.splits)

lemma execute_ignores_round:
  "fst (execute e (this\<lparr>currentRound := r\<rparr>) p w) = fst (execute e this p w)"
  "snd (snd (execute e (this\<lparr>currentRound := r\<rparr>) p w)) = snd (snd (execute e this p w))"
  by (simp_all add: execute_unfold Let_def execute_switch_ignores_round)

lemma execute_operator: "fst (snd (execute e this p w)) = this"
  by (simp add: execute_unfold Let_def)

lemma screenshot_step_entry:
  "fst (snd (screenshot_step e Entry (this, w))) = this\<lparr>currentRound := currentRound this + 1\<rparr>"
  "issued (snd (snd (screenshot_step e Entry (this, w)))) =
     issued w @ [screencap_command (deviceId this)]"
  by (simp_all add: Let_def case_prod_beta)

lemma screenshot_logs_unreachable:
  assumes "\<And>cmd t s. fst (run e cmd t s) = None"
  shows "logs (snd (snd (screenshot e this w))) =
           logs w @
           [(Info, [LStr ''[AdbOperator] screencap'', LStr []]),
            (Info, [LStr ''[AdbOperator] pullScreenshot'', LStr []])] @
           (case fst (screenshot e this w) of
              Inl err \<Rightarrow> [(Error, [LStr ''[AdbOperator] Screenshot error:'', LError err])]
            | Inr out \<Rightarrow>
                [(Info, [LStr (''[AdbOperator] screenshot: '' @ show_nat (width out) @ ''x'' @
                               show_nat (height out) @ '', scaleFactor: 1'')])])"
  by (simp add: screenshot_def Let_def case_prod_beta commandWithTimeout_result assms
      stdout_or_empty_def screenshot_finish_def Jimp_read_def readFileSync_def
      split: option.splits sum.splits)

lemma after_untouched:
  assumes "\<And>cmd t fs d. fst (snd (run e cmd t (fs, d))) = fs"
  shows "fst (after_commands e this w) = files w"
proof -
  obtain fs d where s1: "snd (run e (screencap_command (deviceId this)) default_timeout
                            (files w, device w)) = (fs, d)"
    by (cases "snd (run e (screencap_command (deviceId this)) default_timeout
                      (files w, device w))")
  from assms [of "screencap_command (deviceId this)" default_timeout "files w" "device w"] s1
  have "fs = files w" by simp
  with s1 assms [of "pull_command (deviceId this) (currentRound this + 1)" default_timeout fs d]
  show ?thesis by (simp add: after_commands_def)
qed

lemmas run_simps =
  two_overlapping_calls_def commandWithTimeout_def sim_screencap sim_pull_2 Jimp_read_def
  screenshot_finish_def readFileSync_def logger_def round_file_1 norm_round_1 decode_1080
  world_with_def new_AdbOperator_def a_phone_def Let_def norm_path_def default_timeout_def
  stdout_or_empty_def

section \<open>The screenshot pipeline\<close>

text \<open>
  C1. The claim: the base64 payload of a successful \<^verbatim>\<open>screenshot()\<close> encodes the bytes of the
  per-round file that was pulled and decoded. The code reads \<^verbatim>\<open>uitars_screenshot.png\<close>
  instead. On a device showing a 1080 x 2400 screen, with an older 720 x 1280 image lying
  in the working directory as \<^verbatim>\<open>uitars_screenshot.png\<close>, the first call pulls the capture to
  \<^verbatim>\<open>uitars_screenshot_1.png\<close>, returns its width and height, and returns the base64 of the
  older image, which is not the base64 of the capture; with no such older file the call
  throws, although the capture and the pull succeeded.
\<close>

theorem screenshot_encodes_another_file:
  "fst (screenshot simulated_env (new_AdbOperator ''emu'')
          (world_with [''uitars_screenshot.png'' \<mapsto> png_720x1280])) =
     Inr \<lparr>base64 = toString_base64 png_720x1280, width = 1080, height = 2400,
          scaleFactor = 1\<rparr> \<and>
   files (snd (snd (screenshot simulated_env (new_AdbOperator ''emu'')
          (world_with [''uitars_screenshot.png'' \<mapsto> png_720x1280]))))
      ''uitars_screenshot_1.png'' = Some png_1080x2400 \<and>
   toString_base64 png_720x1280 \<noteq> toString_base64 png_1080x2400 \<and>
   opened (snd (snd (screenshot simulated_env (new_AdbOperator ''emu'')
          (world_with [''uitars_screenshot.png'' \<mapsto> png_720x1280])))) =
     [''./uitars_screenshot_1.png'', ''uitars_screenshot.png''] \<and>
   fst (screenshot simulated_env (new_AdbOperator ''emu'') (world_with Map.empty)) =
     Inl (FileNotFound ''uitars_screenshot.png'')"
  by (simp add: screenshot_result screenshot_files screenshot_opened after_simulated
      norm_round_1 round_file_1 decode_1080 b64_720 b64_1080)

text \<open>
  C2. The claim: when the Command Runner fails or times out on every invocation,
  \<^verbatim>\<open>screenshot()\<close> throws. The code catches both failures and goes on to read the files, so
  with files of an earlier session in the working directory (\<^verbatim>\<open>uitars_screenshot_1.png\<close> and
  \<^verbatim>\<open>uitars_screenshot.png\<close>) the first call of a new operator returns a result although no
  command succeeded.
\<close>

theorem screenshot_returns_stale_files_when_unreachable:
  "fst (screenshot unreachable_env (new_AdbOperator ''emu'')
          (world_with [''uitars_screenshot_1.png'' \<mapsto> png_720x1280,
                       ''uitars_screenshot.png'' \<mapsto> png_720x1280])) =
     Inr \<lparr>base64 = toString_base64 png_720x1280, width = 720, height = 1280,
          scaleFactor = 1\<rparr> \<and>
   issued (snd (snd (screenshot unreachable_env (new_AdbOperator ''emu'')
          (world_with [''uitars_screenshot_1.png'' \<mapsto> png_720x1280,
                       ''uitars_screenshot.png'' \<mapsto> png_720x1280])))) =
     [''adb -s emu shell screencap -p /sdcard/uitars_screenshot.png'',
      ''adb -s emu pull /sdcard/uitars_screenshot.png ./uitars_screenshot_1.png''] \<and>
   run unreachable_env = (\<lambda>cmd timeout s. (None, s))"
  by (simp add: screenshot_result screenshot_issued after_unreachable norm_round_1 round_file_1
      decode_720 screencap_command_def pull_command_def unreachable_adb_def fun_eq_iff)

text \<open>
  C2, as the code has it. When the Command Runner fails or times out on every invocation
  and leaves the files of the working directory as they were, and the working directory
  holds no file of the round's name that the decoder accepts, \<^verbatim>\<open>screenshot()\<close> throws: the
  file is not found, or it cannot be decoded. Both failed commands are logged with an
  empty output, and the error is logged before it is thrown.
\<close>

theorem screenshot_throws_when_unreachable_and_no_stale_file:
  assumes fails: "\<And>cmd t s. fst (run e cmd t s) = None"
    and untouched: "\<And>cmd t fs d. fst (snd (run e cmd t (fs, d))) = fs"
    and no_stale: "case files w (norm_path (round_file (currentRound this + 1))) of
                     None \<Rightarrow> True | Some bs \<Rightarrow> decode e bs = None"
  shows "fst (screenshot e this w) =
           (case files w (norm_path (round_file (currentRound this + 1))) of
              None \<Rightarrow> Inl (FileNotFound (round_file (currentRound this + 1)))
            | Some bs \<Rightarrow> Inl (DecodeFailed (round_file (currentRound this + 1)))) \<and>
         isl (fst (screenshot e this w)) \<and>
         logs (snd (snd (screenshot e this w))) =
           logs w @
           [(Info, [LStr ''[AdbOperator] screencap'', LStr []]),
            (Info, [LStr ''[AdbOperator] pullScreenshot'', LStr []]),
            (Error, [LStr ''[AdbOperator] Screenshot error:'',
                     LError (projl (fst (screenshot e this w)))])]"
proof -
  have res: "fst (screenshot e this w) =
           (case files w (norm_path (round_file (currentRound this + 1))) of
              None \<Rightarrow> Inl (FileNotFound (round_file (currentRound this + 1)))
            | Some bs \<Rightarrow> Inl (DecodeFailed (round_file (currentRound this + 1))))"
  proof (cases "files w (norm_path (round_file (currentRound this + 1)))")
    case None
    then show ?thesis
      by (simp add: screenshot_result after_untouched [OF untouched])
  next
    case (Some bs)
    with no_stale have "decode e bs = None" by simp
    with Some show ?thesis
      by (simp add: screenshot_result after_untouched [OF untouched])
  qed
  then have thrown: "isl (fst (screenshot e this w))"
    by (simp split: option.splits)
  then have "logs (snd (snd (screenshot e this w))) =
           logs w @
           [(Info, [LStr ''[AdbOperator] screencap'', LStr []]),
            (Info, [LStr ''[AdbOperator] pullScreenshot'', LStr []]),
            (Error, [LStr ''[AdbOperator] Screenshot error:'',
                     LError (projl (fst (screenshot e this w)))])]"
    by (cases "fst (screenshot e this w)") (simp_all add: screenshot_logs_unreachable [OF fails])
  with res thrown show ?thesis by simp
qed

theorem screenshot_throws_when_unreachable_and_no_stale_file_witness:
  "fst (screenshot unreachable_env (new_AdbOperator ''emu'') (world_with Map.empty)) =
     Inl (FileNotFound ''./uitars_screenshot_1.png'') \<and>
   logs (snd (snd (screenshot unreachable_env (new_AdbOperator ''emu'')
                     (world_with Map.empty)))) =
     [(Info, [LStr ''[AdbOperator] screencap'', LStr []]),
      (Info, [LStr ''[AdbOperator] pullScreenshot'', LStr []]),
      (Error, [LStr ''[AdbOperator] Screenshot error:'',
               LError (FileNotFound ''./uitars_screenshot_1.png'')])]"
proof -
  have fails: "\<And>cmd t s. fst (run unreachable_env cmd t s) = None"
    by (simp add: unreachable_adb_def)
  have untouched: "\<And>cmd t fs d. fst (snd (run unreachable_env cmd t (fs, d))) = fs"
    by (simp add: unreachable_adb_def)
  have no_stale:
    "case files (world_with Map.empty)
            (norm_path (round_file (currentRound (new_AdbOperator ''emu'') + 1))) of
       None \<Rightarrow> True | Some bs \<Rightarrow> decode unreachable_env bs = None"
    by simp
  show ?thesis
    using screenshot_throws_when_unreachable_and_no_stale_file
      [of unreachable_env "world_with Map.empty" "new_AdbOperator ''emu''",
       OF fails untouched no_stale]
    by (simp add: round_file_1)
qed

text \<open>
  C6. The round counter only grows: \<^verbatim>\<open>screenshot()\<close> adds one to it, in every call;
  \<^verbatim>\<open>execute()\<close> leaves the operator as it is, and neither its result nor what it does to the
  world depends on the counter. A call of \<^verbatim>\<open>screenshot()\<close> pulls to the file of its round
  and opens that file for decoding; two rounds have the same file only when they are the
  same round; and two calls in sequence on a new operator pull to
  \<^verbatim>\<open>./uitars_screenshot_1.png\<close> and then to \<^verbatim>\<open>./uitars_screenshot_2.png\<close>.
\<close>

theorem round_counter_belongs_to_screenshot:
  "currentRound (fst (snd (screenshot e this w))) = currentRound this + 1 \<and>
   fst (snd (execute e this p w)) = this \<and>
   fst (execute e (this\<lparr>currentRound := r\<rparr>) p w) = fst (execute e this p w) \<and>
   snd (snd (execute e (this\<lparr>currentRound := r\<rparr>) p w)) = snd (snd (execute e this p w)) \<and>
   issued (snd (snd (screenshot e this w))) =
     issued w @ [screencap_command (deviceId this),
                 ''adb -s '' @ deviceId this @ '' pull /sdcard/uitars_screenshot.png '' @
                 round_file (currentRound this + 1)] \<and>
   (\<exists>rest. opened (snd (snd (screenshot e this w))) =
             opened w @ round_file (currentRound this + 1) # rest) \<and>
   (round_file a = round_file b \<longleftrightarrow> a = b) \<and>
   issued (snd (snd (screenshots e 2 (new_AdbOperator d) w))) =
     issued w @
     [screencap_command d,
      ''adb -s '' @ d @ '' pull /sdcard/uitars_screenshot.png ./uitars_screenshot_1.png'',
      screencap_command d,
      ''adb -s '' @ d @ '' pull /sdcard/uitars_screenshot.png ./uitars_screenshot_2.png'']"
proof -
  have upt: "[0..<2] = [0, Suc 0]"
    by (simp add: numeral_2_eq_2)
  have two: "issued (snd (snd (screenshots e 2 (new_AdbOperator d) w))) =
     issued w @
     [screencap_command d,
      ''adb -s '' @ d @ '' pull /sdcard/uitars_screenshot.png ./uitars_screenshot_1.png'',
      screencap_command d,
      ''adb -s '' @ d @ '' pull /sdcard/uitars_screenshot.png ./uitars_screenshot_2.png'']"
    unfolding screenshots_issued upt by (simp add: pull_command_def round_file_1)
  have "\<exists>rest. opened (snd (snd (screenshot e this w))) =
             opened w @ round_file (currentRound this + 1) # rest"
    by (simp add: screenshot_opened)
  with two show ?thesis
    by (simp add: screenshot_operator execute_operator execute_ignores_round screenshot_issued
        pull_command_def round_file_inject)
qed

text \<open>
  C10. The counter is incremented in the first segment of \<^verbatim>\<open>screenshot()\<close>, the one that
  starts the capture, and no later step takes the increment back: a call adds one whether
  it returns or throws. After \<open>n\<close> calls in sequence on a new operator the counter is
  \<open>n\<close>, there are \<open>n\<close> results, and the pulls issued are those of the rounds 1 to \<open>n\<close> in
  order, so that no round is used twice. On an unreachable device and an empty working
  directory the first call throws and the counter is 1.
\<close>

theorem round_counter_counts_every_call:
  "currentRound (fst (snd (screenshot e this w))) = currentRound this + 1 \<and>
   fst (snd (screenshot_step e Entry (this, w))) =
     this\<lparr>currentRound := currentRound this + 1\<rparr> \<and>
   issued (snd (snd (screenshot_step e Entry (this, w)))) =
     issued w @ [screencap_command (deviceId this)] \<and>
   currentRound (fst (snd (screenshots e n (new_AdbOperator d) w))) = n \<and>
   length (fst (screenshots e n this w)) = n \<and>
   issued (snd (snd (screenshots e n this w))) =
     issued w @
     concat (map (\<lambda>k. [screencap_command (deviceId this),
                        pull_command (deviceId this) (currentRound this + Suc k)]) [0..<n]) \<and>
   (pull_command d a = pull_command d b \<longleftrightarrow> a = b) \<and>
   isl (fst (screenshot unreachable_env (new_AdbOperator ''emu'') (world_with Map.empty))) \<and>
   currentRound (fst (snd (screenshot unreachable_env (new_AdbOperator ''emu'')
                             (world_with Map.empty)))) = 1"
  using screenshot_step_entry [of e this w]
  by (simp add: screenshot_operator screenshots_operator screenshots_length
      screenshots_issued pull_command_inject screenshot_result after_unreachable norm_round_1
      round_file_1 del: upt_Suc screenshot_step.simps)

text \<open>
  C9. The claim: two overlapping calls of \<^verbatim>\<open>screenshot()\<close> use different host-local files.
  The code reads the counter again at each use, after each \<^verbatim>\<open>await\<close>. When the second call
  starts while the first waits for its capture, both calls have incremented the counter
  before either pulls: both pull to \<^verbatim>\<open>./uitars_screenshot_2.png\<close>, both decode that file and
  both read \<^verbatim>\<open>uitars_screenshot.png\<close>; no file of round 1 is ever written.
\<close>

theorem overlapping_screenshots_share_one_file:
  "issued (snd (snd (snd two_overlapping_calls))) =
     [''adb -s emu shell screencap -p /sdcard/uitars_screenshot.png'',
      ''adb -s emu shell screencap -p /sdcard/uitars_screenshot.png'',
      ''adb -s emu pull /sdcard/uitars_screenshot.png ./uitars_screenshot_2.png'',
      ''adb -s emu pull /sdcard/uitars_screenshot.png ./uitars_screenshot_2.png''] \<and>
   opened (snd (snd (snd two_overlapping_calls))) =
     [''./uitars_screenshot_2.png'', ''./uitars_screenshot_2.png'',
      ''uitars_screenshot.png'', ''uitars_screenshot.png''] \<and>
   files (snd (snd (snd two_overlapping_calls))) ''uitars_screenshot_1.png'' = None \<and>
   files (snd (snd (snd two_overlapping_calls))) ''uitars_screenshot_2.png'' =
     Some png_1080x2400 \<and>
   currentRound (fst (snd (snd two_overlapping_calls))) = 2 \<and>
   fst two_overlapping_calls =
     Settled (Inr \<lparr>base64 = toString_base64 png_720x1280, width = 1080, height = 2400,
                  scaleFactor = 1\<rparr>) \<and>
   fst (snd two_overlapping_calls) = fst two_overlapping_calls"
proof -
  have cmds: "issued (snd (snd (snd two_overlapping_calls))) =
     [screencap_command ''emu'', screencap_command ''emu'',
      pull_command ''emu'' (Suc (Suc 0)), pull_command ''emu'' (Suc (Suc 0))]"
    by (simp add: run_simps)
  have reads: "opened (snd (snd (snd two_overlapping_calls))) =
     [''./uitars_screenshot_2.png'', ''./uitars_screenshot_2.png'',
      ''uitars_screenshot.png'', ''uitars_screenshot.png'']"
    by (simp add: run_simps)
  have one: "files (snd (snd (snd two_overlapping_calls))) ''uitars_screenshot_1.png'' = None"
    by (simp add: run_simps)
  have two: "files (snd (snd (snd two_overlapping_calls))) ''uitars_screenshot_2.png'' =
     Some png_1080x2400"
    by (simp add: run_simps)
  have round: "currentRound (fst (snd (snd two_overlapping_calls))) = 2"
    by (simp add: run_simps)
  have first: "fst two_overlapping_calls =
     Settled (Inr \<lparr>base64 = toString_base64 png_720x1280, width = 1080, height = 2400,
                  scaleFactor = 1\<rparr>)"
    by (simp add: run_simps)
  have second: "fst (snd two_overlapping_calls) =
     Settled (Inr \<lparr>base64 = toString_base64 png_720x1280, width = 1080, height = 2400,
                  scaleFactor = 1\<rparr>)"
    by (simp add: run_simps)
  from cmds reads one two round first second show ?thesis
    by (simp add: screencap_command_def pull_command_def round_file_1)
qed

end
